theory Spec2Isabelle
  imports Complex_Main
begin

section \<open>JavaScript strings\<close>

text \<open>
  A JavaScript string is a sequence of UTF-16 code units; \<open>length\<close>, \<open>slice\<close> and the
  regular expressions of \<^verbatim>\<open>SynapseReadApp.js\<close> (none has the \<^verbatim>\<open>u\<close> flag) all count and
  match code units. A code unit is a natural number below 65536; the em dash of the
  punctuation class is the single unit 8212 (U+2014).
\<close>

type_synonym jschar = nat
type_synonym jsstring = "nat list"

definition js :: "string \<Rightarrow> jsstring" where
  "js s = map of_char s"

text \<open>\<^verbatim>\<open>s.slice(0, k)\<close> and \<^verbatim>\<open>s.slice(k)\<close>: a negative index counts from the end.\<close>

definition sliceTo :: "jsstring \<Rightarrow> int \<Rightarrow> jsstring" where
  "sliceTo s k = (if k < 0 then take (length s - nat (- k)) s else take (nat k) s)"

definition sliceFrom :: "jsstring \<Rightarrow> int \<Rightarrow> jsstring" where
  "sliceFrom s k = (if k < 0 then drop (length s - nat (- k)) s else drop (nat k) s)"

text \<open>
  \<^verbatim>\<open>toLowerCase\<close>. The result is only ever compared with the ASCII affixes of
  \<open>calculateFixation\<close>, so the model is exact on every code unit whose lower-case form
  contains an ASCII letter (\<open>A\<close>-\<open>Z\<close>, the Kelvin sign U+212A, and U+0130 which becomes
  \<open>i\<close> followed by U+0307) and leaves the other units, whose lower-case forms are
  outside ASCII, as they are.
\<close>

definition lowerUnit :: "jschar \<Rightarrow> jsstring" where
  "lowerUnit c =
     (if 65 \<le> c \<and> c \<le> 90 then [c + 32]
      else if c = 8490 then [107]
      else if c = 304 then [105, 775]
      else [c])"

definition toLowerCase :: "jsstring \<Rightarrow> jsstring" where
  "toLowerCase s = concat (map lowerUnit s)"

definition startsWith :: "jsstring \<Rightarrow> jsstring \<Rightarrow> bool" where
  "startsWith s p = (take (length p) s = p)"

definition endsWith :: "jsstring \<Rightarrow> jsstring \<Rightarrow> bool" where
  "endsWith s p = (length p \<le> length s \<and> drop (length s - length p) s = p)"

text \<open>The white space of \<^verbatim>\<open>\s\<close> and of \<^verbatim>\<open>trim\<close>: WhiteSpace and LineTerminator.\<close>

definition whiteSpace :: "(nat \<times> nat) list" where
  "whiteSpace = [(9, 13), (32, 32), (160, 160), (5760, 5760), (8192, 8202),
     (8232, 8233), (8239, 8239), (8287, 8287), (12288, 12288), (65279, 65279)]"

definition inClass :: "(nat \<times> nat) list \<Rightarrow> jschar \<Rightarrow> bool" where
  "inClass rs c = list_ex (\<lambda>r. fst r \<le> c \<and> c \<le> snd r) rs"

definition trim :: "jsstring \<Rightarrow> jsstring" where
  "trim s = rev (dropWhile (inClass whiteSpace) (rev (dropWhile (inClass whiteSpace) s)))"


section \<open>Regular expressions with backtracking\<close>

text \<open>
  The patterns of the source use character classes, sequence, alternation, greedy
  repetition, \<^verbatim>\<open>\b\<close>, \<^verbatim>\<open>^\<close>, \<^verbatim>\<open>$\<close> and the negative lookahead \<^verbatim>\<open>(?!...)\<close>. A position in
  the subject is the code unit before it (if any) and the rest of the subject.
  \<open>ends r pos\<close> lists the positions where a match of \<open>r\<close> begun at \<open>pos\<close> can end, in the
  order in which a backtracking matcher tries them: the head is the match that
  \<^verbatim>\<open>exec\<close> reports.
\<close>

datatype regex =
    Cls "(nat \<times> nat) list"
  | Eps
  | Seq regex regex
  | Alt regex regex
  | Star regex
  | WordB
  | NotAhead regex
  | Bol
  | Eol

type_synonym pos = "jschar option \<times> jsstring"

definition wordChar :: "(nat \<times> nat) list" where
  "wordChar = [(48, 57), (65, 90), (95, 95), (97, 122)]"

definition wordBefore :: "jschar option \<Rightarrow> bool" where
  "wordBefore p = (case p of None \<Rightarrow> False | Some c \<Rightarrow> inClass wordChar c)"

definition wordAfter :: "jsstring \<Rightarrow> bool" where
  "wordAfter s = (case s of [] \<Rightarrow> False | c # _ \<Rightarrow> inClass wordChar c)"

function ends :: "regex \<Rightarrow> pos \<Rightarrow> pos list" where
  "ends (Cls rs) (p, s) =
     (case s of [] \<Rightarrow> [] | c # cs \<Rightarrow> if inClass rs c then [(Some c, cs)] else [])"
| "ends Eps (p, s) = [(p, s)]"
| "ends (Seq a b) (p, s) = concat (map (ends b) (ends a (p, s)))"
| "ends (Alt a b) (p, s) = ends a (p, s) @ ends b (p, s)"
| "ends (Star a) (p, s) =
     concat (map (\<lambda>q. if length (snd q) < length s then ends (Star a) q else [])
                 (ends a (p, s))) @ [(p, s)]"
| "ends WordB (p, s) = (if wordBefore p \<noteq> wordAfter s then [(p, s)] else [])"
| "ends (NotAhead a) (p, s) = (if ends a (p, s) = [] then [(p, s)] else [])"
| "ends Bol (p, s) = (if p = None then [(p, s)] else [])"
| "ends Eol (p, s) = (if s = [] then [(p, s)] else [])"
  by pat_completeness auto
termination
  by (relation "measures [\<lambda>(r, q). size r, \<lambda>(r, q). length (snd q)]") auto

definition Plus :: "regex \<Rightarrow> regex" where
  "Plus r = Seq r (Star r)"

definition Opt :: "regex \<Rightarrow> regex" where
  "Opt r = Alt r Eps"

definition AtLeast2 :: "regex \<Rightarrow> regex" where
  "AtLeast2 r = Seq r (Seq r (Star r))"

definition Chr :: "jschar \<Rightarrow> regex" where
  "Chr c = Cls [(c, c)]"

text \<open>\<^verbatim>\<open>s.match(re)\<close> with the \<^verbatim>\<open>g\<close> flag: every match, left to right.\<close>

function matchAll :: "regex \<Rightarrow> pos \<Rightarrow> jsstring list" where
  "matchAll r (p, []) = (case ends r (p, []) of [] \<Rightarrow> [] | q # _ \<Rightarrow> [[]])"
| "matchAll r (p, c # cs) =
     (case ends r (p, c # cs) of
        [] \<Rightarrow> matchAll r (Some c, cs)
      | q # _ \<Rightarrow>
          if length (snd q) < Suc (length cs)
          then take (Suc (length cs) - length (snd q)) (c # cs) # matchAll r q
          else [] # matchAll r (Some c, cs))"
  by pat_completeness auto
termination
  by (relation "measure (\<lambda>(r, q). length (snd q))") auto

text \<open>\<^verbatim>\<open>s.match(re)\<close> without the flag, used as a truth value.\<close>

fun search :: "regex \<Rightarrow> pos \<Rightarrow> bool" where
  "search r (p, []) = (ends r (p, []) \<noteq> [])"
| "search r (p, c # cs) = (ends r (p, c # cs) \<noteq> [] \<or> search r (Some c, cs))"

definition matches :: "regex \<Rightarrow> jsstring \<Rightarrow> bool" where
  "matches r s = search r (None, s)"


text \<open>
  \<^verbatim>\<open>s.split(re)\<close>: the pattern is tried at each position in turn; a match that is empty
  and lies at the start of the pending piece is skipped; otherwise the pending piece
  \<open>acc\<close> is emitted and the scan goes on behind the match.
\<close>

lemma ends_length: "q \<in> set (ends r ps) \<Longrightarrow> length (snd q) \<le> length (snd ps)"
proof (induction r ps arbitrary: q rule: ends.induct)
  case (1 rs p s)
  then show ?case by (auto split: list.splits if_splits)
next
  case (2 p s)
  then show ?case by simp
next
  case (3 a b p s)
  from "3.prems" obtain m where m: "m \<in> set (ends a (p, s))" and q: "q \<in> set (ends b m)"
    by auto
  from "3.IH"(1)[OF m] "3.IH"(2)[OF m q] show ?case by simp
next
  case (4 a b p s)
  then show ?case by (cases q) auto
next
  case (5 a p s)
  from "5.prems" consider "q = (p, s)"
    | m where "m \<in> set (ends a (p, s))" "length (snd m) < length s"
        "q \<in> set (ends (Star a) m)"
    by (auto split: if_splits)
  then show ?case
  proof cases
    case 1
    then show ?thesis by simp
  next
    case (2 m)
    from "5.IH"(2)[OF 2(1) 2(2) 2(3)] 2(2) show ?thesis by simp
  qed
next
  case (6 p s)
  then show ?case by (auto split: if_splits)
next
  case (7 a p s)
  then show ?case by (auto split: if_splits)
next
  case (8 p s)
  then show ?case by (auto split: if_splits)
next
  case (9 p s)
  then show ?case by (auto split: if_splits)
qed

lemma ends_hd_length: "ends r (p, s) = q # qs \<Longrightarrow> length (snd q) \<le> length s"
  using ends_length [of q r "(p, s)"] by simp

function splitFrom :: "regex \<Rightarrow> jsstring \<Rightarrow> pos \<Rightarrow> jsstring list" where
  "splitFrom r acc (p, []) = [acc]"
| "splitFrom r acc (p, c # cs) =
     (case ends r (p, c # cs) of
        [] \<Rightarrow> splitFrom r (acc @ [c]) (Some c, cs)
      | q # _ \<Rightarrow>
          if length (snd q) = Suc (length cs) \<and> acc = []
          then splitFrom r (acc @ [c]) (Some c, cs)
          else acc # splitFrom r [] q)"
  by pat_completeness auto
termination
proof (relation "measures [\<lambda>(r, acc, q). length (snd q), \<lambda>(r, acc, q). length acc]")
  fix r :: regex and acc :: jsstring and p c cs q qs
  assume e: "ends r (p, c # cs) = q # qs"
    and n: "\<not> (length (snd q) = Suc (length cs) \<and> acc = [])"
  from ends_hd_length [OF e] have "length (snd q) \<le> Suc (length cs)" by simp
  with n show "((r, [], q), (r, acc, p, c # cs))
      \<in> measures [\<lambda>(r, acc, q). length (snd q), \<lambda>(r, acc, q). length acc]"
    by auto
qed auto

definition split :: "regex \<Rightarrow> jsstring \<Rightarrow> jsstring list" where
  "split r s = splitFrom r [] (None, s)"


section \<open>Double-precision numbers\<close>

text \<open>
  Every JavaScript number is an IEEE 754 double, and \<^verbatim>\<open>*\<close> and \<^verbatim>\<open>/\<close> return the double
  nearest to the exact result, a tie going to the even significand. A finite double is
  modelled by the real number it denotes: the literal \<^verbatim>\<open>0.28\<close> is
  \<open>roundDouble (7 / 25)\<close>, slightly above \<open>7 / 25\<close>. \<open>roundDouble x\<close> rounds the real \<open>x\<close>
  to 53 significant bits, and to a multiple of \<open>2^-1074\<close> in the subnormal range:
  \<open>scaleUp\<close> and \<open>scaleDown\<close> bring \<open>|x|\<close> into \<open>[2^52, 2^53)\<close> by doubling (at most down
  to the exponent \<open>-1074\<close>) or halving, the scaled value is rounded to an integer, and
  the integer is scaled back.
\<close>

definition roundHalfEven :: "real \<Rightarrow> int" where
  "roundHalfEven x =
     (let f = \<lfloor>x\<rfloor>; d = x - of_int f
      in if d < 1 / 2 then f else if 1 / 2 < d then f + 1 else if even f then f else f + 1)"

function scaleUp :: "real \<Rightarrow> int \<Rightarrow> real \<times> int" where
  "scaleUp m e = (if m < 2 ^ 52 \<and> - 1074 < e then scaleUp (2 * m) (e - 1) else (m, e))"
  by pat_completeness auto
termination
  by (relation "measure (\<lambda>(m, e). nat (e + 1074))") auto

function scaleDown :: "real \<Rightarrow> int \<Rightarrow> real \<times> int" where
  "scaleDown m e = (if 2 ^ 53 \<le> m then scaleDown (m / 2) (e + 1) else (m, e))"
  by pat_completeness auto
termination
  by (relation "measure (\<lambda>(m, e). nat \<lfloor>m\<rfloor>)") (auto simp: nat_less_iff floor_less_iff, linarith)

declare scaleUp.simps [simp del] scaleDown.simps [simp del]

definition pow2 :: "int \<Rightarrow> real" where
  "pow2 e = (if 0 \<le> e then 2 ^ nat e else 1 / 2 ^ nat (- e))"

definition roundDouble :: "real \<Rightarrow> real" where
  "roundDouble x =
     (if x = 0 then 0
      else
        let me = (if \<bar>x\<bar> < 2 ^ 52 then scaleUp \<bar>x\<bar> 0 else scaleDown \<bar>x\<bar> 0)
        in sgn x * of_int (roundHalfEven (fst me)) * pow2 (snd me))"

text \<open>
  A result whose rounded magnitude reaches \<open>2^1024\<close> is an infinity. \<^verbatim>\<open>NaN\<close> has no
  place in the type: no operation below produces it from finite operands.
\<close>

datatype double = Finite real | PosInfinity | NegInfinity

definition toDouble :: "real \<Rightarrow> double" where
  "toDouble x =
     (let r = roundDouble x
      in if 2 ^ 1024 \<le> r then PosInfinity
         else if r \<le> - (2 ^ 1024) then NegInfinity
         else Finite r)"

text \<open>
  \<^verbatim>\<open>a / b\<close> for finite doubles \<open>a\<close> and \<open>b\<close>, \<open>b\<close> not zero; \<^verbatim>\<open>a * c\<close> for a double \<open>a\<close>
  and a finite double \<open>c\<close> that is not zero; and \<^verbatim>\<open>Math.round\<close>, which returns the
  integer nearest to its argument, a tie going up, and leaves an infinity as it is.
\<close>

definition divD :: "real \<Rightarrow> real \<Rightarrow> double" where
  "divD a b = toDouble (a / b)"

definition mulD :: "double \<Rightarrow> real \<Rightarrow> double" where
  "mulD a c =
     (case a of
        Finite x \<Rightarrow> toDouble (x * c)
      | PosInfinity \<Rightarrow> (if 0 < c then PosInfinity else NegInfinity)
      | NegInfinity \<Rightarrow> (if 0 < c then NegInfinity else PosInfinity))"

definition mathRound :: "double \<Rightarrow> double" where
  "mathRound a =
     (case a of
        Finite x \<Rightarrow> Finite (of_int (round x))
      | PosInfinity \<Rightarrow> PosInfinity
      | NegInfinity \<Rightarrow> NegInfinity)"


section \<open>The fixation point\<close>

definition prefixes :: "jsstring list" where
  "prefixes = map js [''un'', ''re'', ''pre'', ''dis'', ''in'', ''im'', ''ir'', ''il'',
     ''anti'', ''auto'', ''bio'', ''co'', ''de'', ''ex'', ''fore'', ''inter'', ''micro'',
     ''mid'', ''mono'', ''non'', ''over'', ''post'', ''pro'', ''sub'', ''super'', ''trans'',
     ''tri'', ''under'']"

definition suffixes :: "jsstring list" where
  "suffixes = map js [''ing'', ''ed'', ''ly'', ''tion'', ''sion'', ''able'', ''ible'', ''al'',
     ''ent'', ''ence'', ''ive'', ''ize'', ''ise'', ''ment'', ''ness'', ''ous'', ''ful'',
     ''less'']"

text \<open>
  \<^verbatim>\<open>calculateFixation(word, fixationLevel)\<close>, one definition for each rule of the source.
  The level is a finite double, given by the real number it denotes.
  \<open>basePoint\<close> is \<^verbatim>\<open>Math.ceil(len * fixationLevel)\<close>: the ceiling of the double product,
  which is the exact product rounded to a double (a string's length is an integer below
  \<open>2^53\<close> and so a double itself). Where the product is beyond the double range the code
  has an infinity and the model its large finite value; the rules below only take
  minima and maxima of the point with small integers and add one to it, and the last
  line clamps it to \<open>[1, len - 1]\<close>, so that \<open>calculateFixation\<close> returns the same.
  Each \<^verbatim>\<open>for\<close> loop stops at the first affix that applies, which is \<open>find\<close>.
\<close>

definition basePoint :: "int \<Rightarrow> real \<Rightarrow> int" where
  "basePoint len fixationLevel = \<lceil>roundDouble (real_of_int len * fixationLevel)\<rceil>"

definition prefixRule :: "jsstring \<Rightarrow> int \<Rightarrow> int \<Rightarrow> int" where
  "prefixRule lowerWord len fixationPoint =
     (case find (\<lambda>prefix. startsWith lowerWord prefix \<and> len > int (length prefix)) prefixes of
        Some prefix \<Rightarrow> min fixationPoint (int (length prefix))
      | None \<Rightarrow> fixationPoint)"

definition suffixRule :: "jsstring \<Rightarrow> int \<Rightarrow> int \<Rightarrow> int" where
  "suffixRule lowerWord len fixationPoint =
     (case find (\<lambda>suffix. endsWith lowerWord suffix \<and> len > int (length suffix)) suffixes of
        Some suffix \<Rightarrow> min fixationPoint (len - int (length suffix))
      | None \<Rightarrow> fixationPoint)"

definition balanceRule :: "int \<Rightarrow> int \<Rightarrow> int" where
  "balanceRule len fixationPoint =
     (if len \<le> 3 then 1
      else if len > 8 then min (fixationPoint + 1) (len - 1)
      else fixationPoint)"

definition calculateFixation :: "jsstring \<Rightarrow> real \<Rightarrow> int" where
  "calculateFixation word fixationLevel =
     (if length word \<le> 1 then int (length word)
      else
        let lowerWord = toLowerCase word;
            len = int (length word);
            fixationPoint =
              balanceRule len
                (suffixRule lowerWord len
                  (prefixRule lowerWord len (basePoint len fixationLevel)))
        in min (max 1 fixationPoint) (len - 1))"


section \<open>Chunks\<close>

datatype item =
    WordItem (content: jsstring) (bold: jsstring) (normal: jsstring) (itemOpacity: real)
  | SpaceItem (content: jsstring)
  | PunctuationItem (content: jsstring) (itemOpacity: real)

record chunk =
  words :: "item list"
  originalContent :: jsstring
  isParagraphBreak :: bool
  chunkIndex :: "nat option"

record settings =
  fixation :: real
  opacity :: real
  maxWordsPerChunk :: int

definition punctuationChars :: "(nat \<times> nat) list" where
  "punctuationChars = [(46, 46), (44, 44), (33, 33), (63, 63), (59, 59), (58, 58),
     (8212, 8212), (45, 45)]"

text \<open>\<^verbatim>\<open>/(\b\w+'?\w*\b(?!\.)|[.,!?;:\u2014-]+(?!\.)|\s+)/g\<close>, the em dash written \<^verbatim>\<open>\u2014\<close> here.\<close>

definition tokenRe :: regex where
  "tokenRe =
     Alt (Seq WordB (Seq (Plus (Cls wordChar)) (Seq (Opt (Chr 39)) (Seq (Star (Cls wordChar))
            (Seq WordB (NotAhead (Chr 46)))))))
    (Alt (Seq (Plus (Cls punctuationChars)) (NotAhead (Chr 46)))
         (Plus (Cls whiteSpace)))"

text \<open>\<^verbatim>\<open>/^\b\w+'?\w*\b$/\<close>, \<^verbatim>\<open>/^\s+$/\<close> and \<^verbatim>\<open>/^[.,!?;:\u2014-]+$/\<close>.\<close>

definition wordTokenRe :: regex where
  "wordTokenRe =
     Seq Bol (Seq WordB (Seq (Plus (Cls wordChar)) (Seq (Opt (Chr 39))
       (Seq (Star (Cls wordChar)) (Seq WordB Eol)))))"

definition spaceTokenRe :: regex where
  "spaceTokenRe = Seq Bol (Seq (Plus (Cls whiteSpace)) Eol)"

definition punctuationTokenRe :: regex where
  "punctuationTokenRe = Seq Bol (Seq (Plus (Cls punctuationChars)) Eol)"

text \<open>\<^verbatim>\<open>/[.!?]$/\<close> and \<^verbatim>\<open>/[,;\u2014]$/\<close>.\<close>

definition endsSentenceRe :: regex where
  "endsSentenceRe = Seq (Cls [(46, 46), (33, 33), (63, 63)]) Eol"

definition endsClauseRe :: regex where
  "endsClauseRe = Seq (Cls [(44, 44), (59, 59), (8212, 8212)]) Eol"

text \<open>\<^verbatim>\<open>/(?:\r?\n){2,}/\<close>.\<close>

definition paragraphSepRe :: regex where
  "paragraphSepRe = AtLeast2 (Seq (Opt (Chr 13)) (Chr 10))"

definition paragraphsOf :: "jsstring \<Rightarrow> jsstring list" where
  "paragraphsOf text = filter (\<lambda>p. trim p \<noteq> []) (split paragraphSepRe text)"

definition tokensOf :: "jsstring \<Rightarrow> jsstring list" where
  "tokensOf paragraphContent = matchAll tokenRe (None, paragraphContent)"


subsection \<open>Stage 1: natural chunks\<close>

record builder =
  initialChunks :: "chunk list"
  currentChunkItems :: "item list"
  currentChunkOriginalTextParts :: "jsstring list"

definition naturalChunk :: "item list \<Rightarrow> jsstring list \<Rightarrow> chunk" where
  "naturalChunk items parts =
     \<lparr>words = items, originalContent = concat parts, isParagraphBreak = False,
      chunkIndex = None\<rparr>"

definition paragraphBreak :: chunk where
  "paragraphBreak =
     \<lparr>words = [], originalContent = [], isParagraphBreak = True, chunkIndex = None\<rparr>"

text \<open>
  The backward loop over \<^verbatim>\<open>currentChunkItems\<close>, on the items listed last first: a word
  takes the punctuation, a space is passed over, anything else stops the search.
\<close>

fun appendToLastWord :: "jsstring \<Rightarrow> item list \<Rightarrow> item list option" where
  "appendToLastWord token [] = None"
| "appendToLastWord token (WordItem c b n opac # rest) =
     Some (WordItem (c @ token) b (n @ token) opac # rest)"
| "appendToLastWord token (SpaceItem c # rest) =
     map_option ((#) (SpaceItem c)) (appendToLastWord token rest)"
| "appendToLastWord token (PunctuationItem c opac # rest) = None"

definition attachPunctuation :: "real \<Rightarrow> item list \<Rightarrow> jsstring \<Rightarrow> item list" where
  "attachPunctuation opac items token =
     (case appendToLastWord token (rev items) of
        Some r \<Rightarrow> rev r
      | None \<Rightarrow> items @ [PunctuationItem token opac])"

definition processToken :: "real \<Rightarrow> real \<Rightarrow> builder \<Rightarrow> jsstring \<Rightarrow> builder" where
  "processToken fix opac b token =
     (if token = [] then b
      else if matches wordTokenRe token then
        let fixationPoint = calculateFixation token fix
        in b\<lparr>currentChunkItems := currentChunkItems b @
                 [WordItem token (sliceTo token fixationPoint) (sliceFrom token fixationPoint) opac],
              currentChunkOriginalTextParts := currentChunkOriginalTextParts b @ [token]\<rparr>
      else if matches spaceTokenRe token then
        b\<lparr>currentChunkItems := currentChunkItems b @ [SpaceItem token],
          currentChunkOriginalTextParts := currentChunkOriginalTextParts b @ [token]\<rparr>
      else if matches punctuationTokenRe token then
        let items = attachPunctuation opac (currentChunkItems b) token;
            parts = currentChunkOriginalTextParts b @ [token]
        in if (matches endsSentenceRe token \<or> matches endsClauseRe token) \<and> items \<noteq> []
           then \<lparr>initialChunks = initialChunks b @ [naturalChunk items parts],
                 currentChunkItems = [], currentChunkOriginalTextParts = []\<rparr>
           else b\<lparr>currentChunkItems := items, currentChunkOriginalTextParts := parts\<rparr>
      else b)"

definition processParagraph ::
  "real \<Rightarrow> real \<Rightarrow> jsstring list \<Rightarrow> chunk list \<Rightarrow> jsstring \<Rightarrow> chunk list" where
  "processParagraph fix opac paragraphs chunks paragraphContent =
     (let b = foldl (processToken fix opac)
                \<lparr>initialChunks = chunks, currentChunkItems = [],
                 currentChunkOriginalTextParts = []\<rparr>
                (tokensOf paragraphContent);
          flushed =
            (if currentChunkItems b \<noteq> []
             then initialChunks b @
                    [naturalChunk (currentChunkItems b) (currentChunkOriginalTextParts b)]
             else initialChunks b)
      in if length (trim paragraphContent) > 0 \<and> paragraphContent \<noteq> trim (last paragraphs)
         then flushed @ [paragraphBreak]
         else flushed)"

definition naturalChunks :: "jsstring \<Rightarrow> settings \<Rightarrow> chunk list" where
  "naturalChunks text st =
     (let paragraphs = paragraphsOf text
      in foldl (processParagraph (fixation st) (opacity st) paragraphs) [] paragraphs)"


subsection \<open>Stage 2: the fallback on \<^verbatim>\<open>maxWordsPerChunk\<close>\<close>

record splitter =
  finalChunks :: "chunk list"
  currentSubChunkItems :: "item list"
  currentSubChunkOriginalTextParts :: "jsstring list"
  wordsCountInCurrentSubChunk :: nat

definition wordCount :: "item list \<Rightarrow> nat" where
  "wordCount items = length (filter is_WordItem items)"

text \<open>The loop \<^verbatim>\<open>for (i = length - 1; i >= 0; i--)\<close> looking for a space; \<open>n\<close> is \<open>i + 1\<close>.\<close>

fun lastSpace :: "item list \<Rightarrow> nat \<Rightarrow> nat option" where
  "lastSpace items 0 = None"
| "lastSpace items (Suc i) = (if is_SpaceItem (items ! i) then Some i else lastSpace items i)"

definition splitStep :: "int \<Rightarrow> nat \<Rightarrow> splitter \<Rightarrow> nat \<times> item \<Rightarrow> splitter" where
  "splitStep maxWords lastIndex st ii =
     (let index = fst ii; item = snd ii;
          items = currentSubChunkItems st @ [item];
          parts = currentSubChunkOriginalTextParts st @ [content item];
          count = wordsCountInCurrentSubChunk st + (if is_WordItem item then 1 else 0)
      in if int count \<ge> maxWords \<or> index = lastIndex then
           let splitIndex =
                 (case lastSpace items (length items) of
                    Some i \<Rightarrow> i | None \<Rightarrow> length items - 1);
               subChunkToPush = naturalChunk (take (splitIndex + 1) items)
                                             (take (splitIndex + 1) parts);
               pushed =
                 (if words subChunkToPush \<noteq> [] \<and> trim (originalContent subChunkToPush) \<noteq> []
                  then finalChunks st @ [subChunkToPush]
                  else finalChunks st);
               restItems = drop (splitIndex + 1) items;
               restParts = drop (splitIndex + 1) parts
           in if index = lastIndex \<and> restItems \<noteq> []
              then \<lparr>finalChunks = pushed @ [naturalChunk restItems restParts],
                    currentSubChunkItems = [], currentSubChunkOriginalTextParts = [],
                    wordsCountInCurrentSubChunk = 0\<rparr>
              else \<lparr>finalChunks = pushed,
                    currentSubChunkItems = restItems,
                    currentSubChunkOriginalTextParts = restParts,
                    wordsCountInCurrentSubChunk = wordCount restItems\<rparr>
         else \<lparr>finalChunks = finalChunks st, currentSubChunkItems = items,
               currentSubChunkOriginalTextParts = parts,
               wordsCountInCurrentSubChunk = count\<rparr>)"

definition fallbackChunk :: "int \<Rightarrow> chunk list \<Rightarrow> chunk \<Rightarrow> chunk list" where
  "fallbackChunk maxWords finals chunk =
     (if isParagraphBreak chunk then finals @ [chunk]
      else if int (wordCount (words chunk)) > maxWords then
        finalChunks
          (foldl (splitStep maxWords (length (words chunk) - 1))
             \<lparr>finalChunks = finals, currentSubChunkItems = [],
              currentSubChunkOriginalTextParts = [], wordsCountInCurrentSubChunk = 0\<rparr>
             (enumerate 0 (words chunk)))
      else finals @ [chunk])"

definition assignIndices :: "chunk list \<Rightarrow> chunk list" where
  "assignIndices cs = map (\<lambda>ic. (snd ic)\<lparr>chunkIndex := Some (fst ic)\<rparr>) (enumerate 0 cs)"

definition applyEnhancedFormatting :: "jsstring \<Rightarrow> settings \<Rightarrow> chunk list" where
  "applyEnhancedFormatting text st =
     (if text = [] then []
      else assignIndices (foldl (fallbackChunk (maxWordsPerChunk st)) [] (naturalChunks text st)))"

definition defaultSettings :: settings where
  "defaultSettings = \<lparr>fixation = 1 / 2, opacity = 1, maxWordsPerChunk = 10\<rparr>"


section \<open>Progress tracker and playback\<close>

text \<open>
  \<^verbatim>\<open>calculateWPM\<close>, on finite doubles: the quotient is rounded to a double, its product
  with 60 is rounded to a double, and \<^verbatim>\<open>Math.round\<close> is applied to that.
\<close>

definition calculateWPM :: "real \<Rightarrow> real \<Rightarrow> double" where
  "calculateWPM wordsRead timeElapsedSeconds =
     (if timeElapsedSeconds \<le> 0 then Finite 0
      else mathRound (mulD (divD wordsRead timeElapsedSeconds) 60))"

record readingStats =
  wordsRead :: nat
  wpm :: double
  timeElapsed :: real
  pauseCount :: nat
  backtrackCount :: nat

record reader =
  currentChunkIndex :: nat
  isPlaying :: bool
  startTime :: "real option"
  stats :: readingStats

record progressEvent =
  eventWordsRead :: nat
  eventWpm :: double
  progress :: real

text \<open>
  The callback of \<^verbatim>\<open>setInterval\<close> in chunk mode, at clock reading \<open>now\<close> (milliseconds):
  the new reader state and the event handed to \<^verbatim>\<open>onProgress\<close>, if any. A start time of
  \<^verbatim>\<open>null\<close> counts as 0 in the subtraction. The clock readings are whole milliseconds,
  their difference is exact, and the elapsed seconds are the double quotient by 1000.
  The percentage is the exact quotient: the double of the code is within two units in
  the last place of it, and nothing rounds it further.
\<close>

definition timerTick :: "chunk list \<Rightarrow> real \<Rightarrow> reader \<Rightarrow> reader \<times> progressEvent option" where
  "timerTick processedChunks now rd =
     (let newIndex = currentChunkIndex rd + 1
      in if newIndex \<ge> length processedChunks then (rd\<lparr>isPlaying := False\<rparr>, None)
         else
           let wordsReadUpToCurrentChunk =
                 sum_list (map (\<lambda>c. wordCount (words c)) (take newIndex processedChunks));
               elapsed =
                 roundDouble ((now - (case startTime rd of None \<Rightarrow> 0 | Some t \<Rightarrow> t)) / 1000);
               w = calculateWPM (real wordsReadUpToCurrentChunk) elapsed
           in (rd\<lparr>currentChunkIndex := newIndex,
                   stats := (stats rd)\<lparr>wordsRead := wordsReadUpToCurrentChunk, wpm := w,
                                         timeElapsed := elapsed\<rparr>\<rparr>,
               Some \<lparr>eventWordsRead = wordsReadUpToCurrentChunk, eventWpm = w,
                     progress = (real newIndex / real (length processedChunks)) * 100\<rparr>))"

text \<open>The spec's count of readable chunks: the chunks that are not paragraph-break markers.\<close>

definition totalReadableChunks :: "chunk list \<Rightarrow> nat" where
  "totalReadableChunks cs = length (filter (\<lambda>c. \<not> isParagraphBreak c) cs)"


section \<open>Invariants and example data\<close>

text \<open>A word item is split correctly when its two parts make up its content.\<close>

definition wordSplit :: "item \<Rightarrow> bool" where
  "wordSplit it = (is_WordItem it \<longrightarrow> bold it @ normal it = content it)"

definition itemsOk :: "item list \<Rightarrow> bool" where
  "itemsOk items = (\<forall>it \<in> set items. wordSplit it)"

definition chunksOk :: "chunk list \<Rightarrow> bool" where
  "chunksOk cs = (\<forall>c \<in> set cs. itemsOk (words c))"

definition builderOk :: "builder \<Rightarrow> bool" where
  "builderOk b = (chunksOk (initialChunks b) \<and> itemsOk (currentChunkItems b))"

definition splitterOk :: "splitter \<Rightarrow> bool" where
  "splitterOk sp = (chunksOk (finalChunks sp) \<and> itemsOk (currentSubChunkItems sp))"

text \<open>Two paragraphs of one word each, and a reader that has just started to play.\<close>

definition twoParagraphChunks :: "chunk list" where
  "twoParagraphChunks = applyEnhancedFormatting (js ''a'' @ [10, 10] @ js ''b'') defaultSettings"

definition freshReader :: reader where
  "freshReader =
     \<lparr>currentChunkIndex = 0, isPlaying = True, startTime = Some 0,
      stats = \<lparr>wordsRead = 0, wpm = Finite 0, timeElapsed = 0, pauseCount = 0,
               backtrackCount = 0\<rparr>\<rparr>"


section \<open>Double rounding on concrete numbers\<close>

text \<open>
  The literal \<^verbatim>\<open>0.28\<close> and the products \<^verbatim>\<open>25 * 0.28\<close> (above 7) and \<^verbatim>\<open>5 * 0.2\<close> (exactly
  1); \<^verbatim>\<open>0.1 + 0.2\<close> is one unit in the last place above \<^verbatim>\<open>0.3\<close>.
\<close>

lemmas double_eval = roundDouble_def roundHalfEven_def pow2_def scaleUp.simps scaleDown.simps
  toDouble_def divD_def mulD_def mathRound_def Let_def

lemma roundDouble_zero: "roundDouble 0 = 0"
  by (simp add: roundDouble_def)

lemma roundDouble_examples:
  "roundDouble 5 = 5"
  "roundDouble (7 / 25) = 1261007895663739 / 4503599627370496"
  "roundDouble (25 * roundDouble (7 / 25)) = 7 + 1 / 2 ^ 50"
  "roundDouble (5 * roundDouble (1 / 5)) = 1"
  "roundDouble (roundDouble (1 / 10) + roundDouble (2 / 10)) = roundDouble (3 / 10) + 1 / 2 ^ 54"
  by (simp_all add: double_eval)

lemma basePoint_examples:
  "basePoint 10 (1 / 2) = 5"
  "basePoint 25 (roundDouble (7 / 25)) = 8"
  "basePoint 5 (roundDouble (1 / 5)) = 1"
  by (simp_all add: basePoint_def double_eval)


section \<open>The fixation point: bounds\<close>

lemmas fixation_eval = basePoint_def prefixRule_def suffixRule_def balanceRule_def
  prefixes_def suffixes_def toLowerCase_def lowerUnit_def startsWith_def endsWith_def

lemma prefixRule_le: "prefixRule lw len fp \<le> fp"
  by (simp add: prefixRule_def split: option.split)

lemma suffixRule_le: "suffixRule lw len fp \<le> fp"
  by (simp add: suffixRule_def split: option.split)

lemma balanceRule_le: "balanceRule len fp \<le> (if 8 < len then max 1 (fp + 1) else max 1 fp)"
  by (simp add: balanceRule_def min_def max_def)

lemma calculateFixation_range:
  assumes "1 < length word"
  shows "1 \<le> calculateFixation word level
         \<and> calculateFixation word level \<le> int (length word) - 1"
  using assms by (simp add: calculateFixation_def Let_def)

lemma calculateFixation_short:
  assumes "1 < length word" "length word \<le> 3"
  shows "calculateFixation word level = 1"
  using assms by (simp add: calculateFixation_def Let_def balanceRule_def)

lemma calculateFixation_tiny:
  assumes "length word \<le> 1"
  shows "calculateFixation word level = int (length word)"
  using assms by (simp add: calculateFixation_def)

text \<open>
  Claim C7. For a word of length \<open>n > 1\<close> and a fixation level in \<open>[0.2, 0.8]\<close>,
  \<open>calculateFixation\<close> returns an integer in \<open>[1, n - 1]\<close>; for a word of length at most 1
  it returns the length; for a word of length 2 or 3 it returns exactly 1. The bounds do
  not depend on the level (\<open>calculateFixation_range\<close>), so they hold at the doubles
  written \<^verbatim>\<open>0.2\<close> and \<^verbatim>\<open>0.8\<close> as well.
\<close>

theorem C7_fixation_contract:
  "(1 < length word \<and> 1 / 5 \<le> level \<and> level \<le> 4 / 5 \<longrightarrow>
      1 \<le> calculateFixation word level
      \<and> calculateFixation word level \<le> int (length word) - 1)
   \<and> (length word \<le> 1 \<longrightarrow> calculateFixation word level = int (length word))
   \<and> (1 < length word \<and> length word \<le> 3 \<longrightarrow> calculateFixation word level = 1)"
  using calculateFixation_range [of word level] calculateFixation_short [of word level]
    calculateFixation_tiny [of word level]
  by blast

text \<open>Claim C7 at the words \<open>reading\<close>, \<open>a\<close> and \<open>the\<close>, level 0.5.\<close>

theorem C7_fixation_contract_witness:
  "1 \<le> calculateFixation (js ''reading'') (1 / 2)
   \<and> calculateFixation (js ''reading'') (1 / 2) \<le> 6
   \<and> calculateFixation (js ''a'') (1 / 2) = 1
   \<and> calculateFixation (js ''the'') (1 / 2) = 1"
  using C7_fixation_contract [of "js ''reading''" "1 / 2"]
    C7_fixation_contract [of "js ''a''" "1 / 2"]
    C7_fixation_contract [of "js ''the''" "1 / 2"]
  by (simp add: js_def)


text \<open>
  The fixation points the code returns where the double product is not the exact one:
  25 letters at \<^verbatim>\<open>0.28\<close> (base 8, one more for the long word) and \<open>chunk\<close> at \<^verbatim>\<open>0.2\<close>
  (base 1); and the word of claim C8's counterexample.
\<close>

lemma calculateFixation_double_examples:
  "calculateFixation (js ''xxxxxxxxxxxxxxxxxxxxxxxxx'') (roundDouble (7 / 25)) = 9"
  "calculateFixation (js ''chunk'') (roundDouble (1 / 5)) = 1"
  "calculateFixation (js ''abcdefghij'') (1 / 2) = 6"
  unfolding calculateFixation_def Let_def
  by (simp_all add: js_def prefixRule_def suffixRule_def balanceRule_def
      prefixes_def suffixes_def toLowerCase_def lowerUnit_def startsWith_def endsWith_def
      basePoint_examples)

text \<open>
  Claim C8, as the code has it. The prefix and the suffix rule can only lower the
  fixation point, but the rule for long words adds one and the final clamp raises the
  point to 1: for a word of length \<open>n > 1\<close> the result is at most \<open>max 1 base\<close> when
  \<open>n \<le> 8\<close> and at most \<open>max 1 (base + 1)\<close> when \<open>n > 8\<close>, where \<open>base\<close> is the base point
  that the code computes, \<^verbatim>\<open>Math.ceil(n * fixationLevel)\<close> on the double product.
\<close>

theorem C8_fixation_near_base:
  assumes "1 < length word"
  shows "calculateFixation word level \<le>
           (if 8 < length word then max 1 (basePoint (int (length word)) level + 1)
            else max 1 (basePoint (int (length word)) level))"
proof -
  define len where "len = int (length word)"
  define base where "base = basePoint len level"
  define fp where "fp = balanceRule len (suffixRule (toLowerCase word) len
                          (prefixRule (toLowerCase word) len base))"
  have cf: "calculateFixation word level = min (max 1 fp) (len - 1)"
    using assms by (simp add: calculateFixation_def Let_def fp_def base_def len_def)
  have "suffixRule (toLowerCase word) len (prefixRule (toLowerCase word) len base) \<le> base"
    using suffixRule_le prefixRule_le by (rule order_trans)
  then have "fp \<le> (if 8 < len then max 1 (base + 1) else max 1 base)"
    using balanceRule_le [of len "suffixRule (toLowerCase word) len
        (prefixRule (toLowerCase word) len base)"]
    by (simp add: fp_def split: if_splits)
  then have "min (max 1 fp) (len - 1) \<le> (if 8 < len then max 1 (base + 1) else max 1 base)"
    by (simp split: if_splits)
  moreover have "(8 < len) = (8 < length word)"
    by (simp add: len_def)
  ultimately show ?thesis
    unfolding cf base_def len_def by (auto split: if_splits)
qed

text \<open>
  Claim C8 as amended, at a word of ten letters at level 0.5, at \<open>chunk\<close> at the double
  \<^verbatim>\<open>0.2\<close> and at 25 letters at the double \<^verbatim>\<open>0.28\<close>.
\<close>

theorem C8_fixation_near_base_witness:
  "calculateFixation (js ''abcdefghij'') (1 / 2) \<le> 6
   \<and> calculateFixation (js ''chunk'') (roundDouble (1 / 5)) \<le> 1
   \<and> calculateFixation (js ''xxxxxxxxxxxxxxxxxxxxxxxxx'') (roundDouble (7 / 25)) \<le> 9"
  using C8_fixation_near_base [of "js ''abcdefghij''" "1 / 2"]
    C8_fixation_near_base [of "js ''chunk''" "roundDouble (1 / 5)"]
    C8_fixation_near_base [of "js ''xxxxxxxxxxxxxxxxxxxxxxxxx''" "roundDouble (7 / 25)"]
  by (simp add: js_def basePoint_examples)

text \<open>
  Claim C8 as stated fails: the word \<open>abcdefghij\<close> has no listed prefix or suffix, its
  base point at level 0.5 is 5 (the product is exact in doubles), and the rule for words
  longer than 8 moves the point to 6.
\<close>

theorem C8_fixation_counterexample:
  "\<not> calculateFixation (js ''abcdefghij'') (1 / 2)
       \<le> basePoint (int (length (js ''abcdefghij''))) (1 / 2)
   \<and> \<not> calculateFixation (js ''abcdefghij'') (1 / 2)
       \<le> \<lceil>real (length (js ''abcdefghij'')) * (1 / 2)\<rceil>"
  using calculateFixation_double_examples(3) by (simp add: js_def basePoint_examples)


section \<open>Words per minute\<close>

text \<open>
  Claim C9. \<open>calculateWPM\<close> returns 0 whenever the elapsed time is zero or negative,
  returns 0 whenever no word was read, and otherwise returns
  \<^verbatim>\<open>Math.round((wordsRead / elapsedSeconds) * 60)\<close> as the code computes it, in double
  arithmetic. The model is total: no input raises.
\<close>

theorem C9_wpm:
  "(t \<le> 0 \<longrightarrow> calculateWPM w t = Finite 0)
   \<and> (w = 0 \<longrightarrow> calculateWPM w t = Finite 0)
   \<and> (\<not> t \<le> 0 \<and> w \<noteq> 0 \<longrightarrow> calculateWPM w t = mathRound (mulD (divD w t) 60))"
  by (simp add: calculateWPM_def divD_def mulD_def mathRound_def toDouble_def roundDouble_zero)

text \<open>
  Claim C9 at elapsed times 0 and -3, at no words read, at 7 words in a minute, at 41
  words in 40 seconds (the double product is just below 61.5 and rounds to 61), and at
  a quotient beyond the double range.
\<close>

theorem C9_wpm_witness:
  "calculateWPM 120 0 = Finite 0 \<and> calculateWPM 120 (- 3) = Finite 0
   \<and> calculateWPM 0 7 = Finite 0
   \<and> calculateWPM 7 60 = Finite 7 \<and> calculateWPM 41 40 = Finite 61
   \<and> calculateWPM (2 ^ 1023) (1 / 2) = PosInfinity"
  using C9_wpm [of 0 120] C9_wpm [of "- 3" 120] C9_wpm [of 7 0] C9_wpm [of 60 7]
    C9_wpm [of 40 41] C9_wpm [of "1 / 2" "2 ^ 1023"]
  by (simp add: double_eval round_def)



section \<open>The chunking pipeline on concrete texts\<close>

lemmas regex_eval = tokenRe_def wordTokenRe_def spaceTokenRe_def punctuationTokenRe_def
  endsSentenceRe_def endsClauseRe_def paragraphSepRe_def Plus_def Opt_def Chr_def AtLeast2_def
  wordChar_def whiteSpace_def punctuationChars_def inClass_def wordBefore_def wordAfter_def
  matches_def

lemmas pipeline_eval = applyEnhancedFormatting_def naturalChunks_def paragraphsOf_def split_def
  tokensOf_def processParagraph_def processToken_def attachPunctuation_def naturalChunk_def
  paragraphBreak_def fallbackChunk_def splitStep_def assignIndices_def wordCount_def trim_def
  Let_def

text \<open>
  The token pattern gives no word token to a word that a period follows at once: the
  lookahead \<^verbatim>\<open>(?!\.)\<close> refuses the whole word and every shorter prefix of it ends inside
  the word, where \<^verbatim>\<open>\b\<close> fails. The words \<open>Dr\<close>, \<open>hello\<close> and \<open>quickly\<close> are lost.
\<close>

lemma tokens_of_scenario:
  "tokensOf (js ''Dr. Smith said hello. He left quickly.'')
   = map js [''.'', '' '', ''Smith'', '' '', ''said'', '' '', ''.'',
             '' '', ''He'', '' '', ''left'', '' '', ''.'']"
  by (simp add: js_def tokensOf_def regex_eval)

text \<open>
  Claim C1, on the code. The scenario text gives three chunks, not two: the first is the
  period left over from \<open>Dr.\<close>, standing alone as a punctuation token, and the other two
  are \<open> Smith said .\<close> and \<open> He left .\<close>, each period merged into the word before the
  space.
\<close>

theorem C1_abbreviation_scenario:
  "map originalContent
     (applyEnhancedFormatting (js ''Dr. Smith said hello. He left quickly.'') defaultSettings)
   = [js ''.'', js '' Smith said .'', js '' He left .'']
   \<and> map (\<lambda>c. map content (words c))
       (applyEnhancedFormatting (js ''Dr. Smith said hello. He left quickly.'') defaultSettings)
     = [[js ''.''],
        [js '' '', js ''Smith'', js '' '', js ''said.'', js '' ''],
        [js '' '', js ''He'', js '' '', js ''left.'', js '' '']]"
  by (simp add: js_def defaultSettings_def regex_eval pipeline_eval)

text \<open>
  Claim C4, on the code. With \<open>maxWordsPerChunk = 3\<close> the text \<open>Go! a-b-c-d\<close> gives a chunk
  of four word tokens: the second natural chunk starts with a space, the first split falls
  on that space and consumes no word, the three words counted so far stay in the buffer,
  and the next word is emitted with them.
\<close>

theorem C4_oversized_chunk:
  "map (\<lambda>c. (originalContent c, wordCount (words c), isParagraphBreak c))
     (applyEnhancedFormatting (js ''Go! a-b-c-d'')
        \<lparr>fixation = 1 / 2, opacity = 1, maxWordsPerChunk = 3\<rparr>)
   = [(js ''Go!'', 1, False), (js ''a-b-c-d'', 4, False)]"
  by (simp add: js_def regex_eval pipeline_eval)

text \<open>
  Claim C6, on the code. The marker test compares the paragraph's text with the trimmed
  text of the last paragraph, not positions: a last paragraph that ends in white space is
  followed by a marker, and a paragraph that reads like the last one is followed by none.
\<close>

theorem C6_marker_by_content:
  "map isParagraphBreak (applyEnhancedFormatting (js ''a '') defaultSettings) = [False, True]
   \<and> map isParagraphBreak
         (applyEnhancedFormatting (js ''a'' @ [10, 10] @ js ''a'') defaultSettings)
       = [False, False]"
  by (simp add: js_def defaultSettings_def regex_eval pipeline_eval)


section \<open>Word items keep their split\<close>

lemma slice_append: "sliceTo s k @ sliceFrom s k = s"
  by (simp add: sliceTo_def sliceFrom_def)

lemma itemsOk_simps:
  "itemsOk []"
  "itemsOk (it # items) = (wordSplit it \<and> itemsOk items)"
  "itemsOk (items @ items2) = (itemsOk items \<and> itemsOk items2)"
  "itemsOk (rev items) = itemsOk items"
  by (auto simp: itemsOk_def)

lemma itemsOk_take: "itemsOk items \<Longrightarrow> itemsOk (take n items)"
  by (auto simp: itemsOk_def dest: in_set_takeD)

lemma itemsOk_drop: "itemsOk items \<Longrightarrow> itemsOk (drop n items)"
  by (auto simp: itemsOk_def dest: in_set_dropD)

lemma chunksOk_simps:
  "chunksOk []"
  "chunksOk (cs @ ds) = (chunksOk cs \<and> chunksOk ds)"
  "chunksOk (c # cs) = (itemsOk (words c) \<and> chunksOk cs)"
  by (auto simp: chunksOk_def)

lemma appendToLastWord_ok:
  "appendToLastWord token xs = Some ys \<Longrightarrow> itemsOk xs \<Longrightarrow> itemsOk ys"
  by (induction token xs arbitrary: ys rule: appendToLastWord.induct)
     (auto simp: itemsOk_simps wordSplit_def)

lemma attachPunctuation_ok:
  "itemsOk items \<Longrightarrow> itemsOk (attachPunctuation opac items token)"
  by (auto simp: attachPunctuation_def itemsOk_simps wordSplit_def
      split: option.split dest: appendToLastWord_ok)

lemma processToken_ok: "builderOk b \<Longrightarrow> builderOk (processToken fix opac b token)"
  by (simp add: processToken_def builderOk_def Let_def chunksOk_simps itemsOk_simps
      naturalChunk_def wordSplit_def slice_append attachPunctuation_ok)

lemma foldl_processToken_ok:
  "builderOk b \<Longrightarrow> builderOk (foldl (processToken fix opac) b tokens)"
  by (induction tokens arbitrary: b) (simp_all add: processToken_ok)

lemma processParagraph_ok:
  assumes "chunksOk cs"
  shows "chunksOk (processParagraph fix opac ps cs p)"
proof -
  have "builderOk \<lparr>initialChunks = cs, currentChunkItems = [],
                    currentChunkOriginalTextParts = []\<rparr>"
    using assms by (simp add: builderOk_def itemsOk_simps)
  from foldl_processToken_ok [OF this, of "fix" opac "tokensOf p"] show ?thesis
    by (auto simp: processParagraph_def Let_def builderOk_def chunksOk_simps itemsOk_simps
        naturalChunk_def paragraphBreak_def)
qed

lemma foldl_processParagraph_ok:
  "chunksOk cs \<Longrightarrow> chunksOk (foldl (processParagraph fix opac ps) cs qs)"
  by (induction qs arbitrary: cs) (simp_all add: processParagraph_ok)

lemma naturalChunks_ok: "chunksOk (naturalChunks text st)"
  by (simp add: naturalChunks_def Let_def foldl_processParagraph_ok chunksOk_simps)

lemma splitStep_ok:
  "splitterOk sp \<Longrightarrow> wordSplit (snd ii) \<Longrightarrow> splitterOk (splitStep maxWords lastIndex sp ii)"
  by (simp add: splitStep_def splitterOk_def Let_def chunksOk_simps itemsOk_simps
      naturalChunk_def itemsOk_take itemsOk_drop)

lemma foldl_splitStep_ok:
  "splitterOk sp \<Longrightarrow> \<forall>ii \<in> set iis. wordSplit (snd ii)
     \<Longrightarrow> splitterOk (foldl (splitStep maxWords lastIndex) sp iis)"
  by (induction iis arbitrary: sp) (simp_all add: splitStep_ok)

lemma enumerate_ok: "itemsOk items \<Longrightarrow> \<forall>ii \<in> set (enumerate n items). wordSplit (snd ii)"
  by (auto simp: itemsOk_def in_set_enumerate_eq)

lemma fallbackChunk_ok:
  assumes "chunksOk finals" "itemsOk (words c)"
  shows "chunksOk (fallbackChunk maxWords finals c)"
proof -
  have "splitterOk \<lparr>finalChunks = finals, currentSubChunkItems = [],
          currentSubChunkOriginalTextParts = [], wordsCountInCurrentSubChunk = 0\<rparr>"
    using assms by (simp add: splitterOk_def itemsOk_simps)
  from foldl_splitStep_ok [OF this enumerate_ok [OF assms(2)]] assms show ?thesis
    by (simp add: fallbackChunk_def splitterOk_def chunksOk_simps)
qed

lemma foldl_fallbackChunk_ok:
  "chunksOk finals \<Longrightarrow> chunksOk cs \<Longrightarrow> chunksOk (foldl (fallbackChunk maxWords) finals cs)"
  by (induction cs arbitrary: finals) (simp_all add: fallbackChunk_ok chunksOk_simps)

lemma assignIndices_ok: "chunksOk cs \<Longrightarrow> chunksOk (assignIndices cs)"
  by (auto simp: chunksOk_def assignIndices_def in_set_enumerate_eq)

lemma applyEnhancedFormatting_ok: "chunksOk (applyEnhancedFormatting text st)"
  by (simp add: applyEnhancedFormatting_def assignIndices_ok foldl_fallbackChunk_ok
      naturalChunks_ok chunksOk_simps)

text \<open>
  Claim C10. Every word item of every chunk that \<open>applyEnhancedFormatting\<close> returns has
  \<open>bold @ normal = content\<close>; and the backward re-attachment of punctuation, which appends
  the punctuation to the content and to the normal part of the word it finds, keeps this
  true of every item of the buffer.
\<close>

theorem C10_bold_normal_content:
  "(\<forall>c \<in> set (applyEnhancedFormatting text st). \<forall>it \<in> set (words c).
      is_WordItem it \<longrightarrow> bold it @ normal it = content it)
   \<and> ((\<forall>it \<in> set items. is_WordItem it \<longrightarrow> bold it @ normal it = content it) \<longrightarrow>
      (\<forall>it \<in> set (attachPunctuation opac items token).
         is_WordItem it \<longrightarrow> bold it @ normal it = content it))"
  using applyEnhancedFormatting_ok [of "text" st] attachPunctuation_ok [of items opac token]
  by (simp add: chunksOk_def itemsOk_def wordSplit_def)


text \<open>
  Claim C10 at the text \<open>Hi, you\<close>, whose comma is attached to \<open>Hi\<close>, and at a buffer of
  the word \<open>Hi\<close> and a space.
\<close>

theorem C10_bold_normal_content_witness:
  "map (\<lambda>c. map (\<lambda>it. (bold it, normal it, content it)) (filter is_WordItem (words c)))
       (applyEnhancedFormatting (js ''Hi, you'') defaultSettings)
     = [[(js ''H'', js ''i,'', js ''Hi,'')], [(js ''y'', js ''ou'', js ''you'')]]
   \<and> list_all (\<lambda>c. list_all (\<lambda>it. bold it @ normal it = content it)
                           (filter is_WordItem (words c)))
        (applyEnhancedFormatting (js ''Hi, you'') defaultSettings)
   \<and> attachPunctuation 1 [WordItem (js ''Hi'') (js ''H'') (js ''i'') 1, SpaceItem (js '' '')]
        (js '','')
     = [WordItem (js ''Hi,'') (js ''H'') (js ''i,'') 1, SpaceItem (js '' '')]
   \<and> list_all (\<lambda>it. bold it @ normal it = content it)
        (filter is_WordItem (attachPunctuation 1
           [WordItem (js ''Hi'') (js ''H'') (js ''i'') 1, SpaceItem (js '' '')] (js '','')))"
  using C10_bold_normal_content [of "js ''Hi, you''" defaultSettings
      "[WordItem (js ''Hi'') (js ''H'') (js ''i'') 1, SpaceItem (js '' '')]" 1 "js '',''"]
  by (simp add: js_def defaultSettings_def regex_eval pipeline_eval calculateFixation_short
      sliceTo_def sliceFrom_def)


section \<open>Progress of the chunk timer\<close>

lemma twoParagraphChunks_flags:
  "map isParagraphBreak twoParagraphChunks = [False, True, False]"
  by (simp add: twoParagraphChunks_def js_def defaultSettings_def regex_eval pipeline_eval)

lemma twoParagraphChunks_length: "length twoParagraphChunks = 3"
  using arg_cong [OF twoParagraphChunks_flags, of length] by simp

lemma twoParagraphChunks_readable: "totalReadableChunks twoParagraphChunks = 2"
proof -
  have "totalReadableChunks twoParagraphChunks
        = length (filter (\<lambda>b. \<not> b) (map isParagraphBreak twoParagraphChunks))"
    by (simp add: totalReadableChunks_def filter_map comp_def)
  then show ?thesis by (simp add: twoParagraphChunks_flags)
qed

text \<open>
  Claim C5, as the code has it. The cursor runs over all chunks, paragraph-break markers
  included, and so does the denominator: a tick is accepted exactly when the next index
  is below the number of chunks, and its event then carries
  \<open>100 * newCursor / (number of chunks)\<close>; a refused tick moves nothing and emits nothing.
\<close>

theorem C5_progress_over_all_chunks:
  "(currentChunkIndex rd + 1 < length cs \<longrightarrow>
      currentChunkIndex (fst (timerTick cs now rd)) = currentChunkIndex rd + 1
      \<and> map_option progress (snd (timerTick cs now rd))
          = Some (100 * real (currentChunkIndex rd + 1) / real (length cs)))
   \<and> (\<not> currentChunkIndex rd + 1 < length cs \<longrightarrow>
      currentChunkIndex (fst (timerTick cs now rd)) = currentChunkIndex rd
      \<and> snd (timerTick cs now rd) = None)"
  by (simp add: timerTick_def Let_def)

text \<open>
  Claim C5 as amended, on the three chunks of two one-word paragraphs: the first tick
  reports a third of the way, and a tick at the last chunk is refused.
\<close>

theorem C5_progress_over_all_chunks_witness:
  "currentChunkIndex (fst (timerTick twoParagraphChunks 1000 freshReader)) = 1
   \<and> map_option progress (snd (timerTick twoParagraphChunks 1000 freshReader))
       = Some (100 / 3)
   \<and> currentChunkIndex
         (fst (timerTick twoParagraphChunks 1000 (freshReader\<lparr>currentChunkIndex := 2\<rparr>))) = 2
   \<and> snd (timerTick twoParagraphChunks 1000 (freshReader\<lparr>currentChunkIndex := 2\<rparr>)) = None"
  using C5_progress_over_all_chunks [of freshReader twoParagraphChunks 1000]
    C5_progress_over_all_chunks
      [of "freshReader\<lparr>currentChunkIndex := 2\<rparr>" twoParagraphChunks 1000]
  by (simp add: twoParagraphChunks_length freshReader_def)

text \<open>
  Claim C5 as stated fails: of the three chunks two are readable, the first tick moves
  the cursor to 1, and the event's percentage is not \<open>100 * 1 / 2\<close>.
\<close>

theorem C5_progress_counterexample:
  "currentChunkIndex (fst (timerTick twoParagraphChunks 1000 freshReader)) = 1
   \<and> totalReadableChunks twoParagraphChunks = 2
   \<and> map_option progress (snd (timerTick twoParagraphChunks 1000 freshReader))
       \<noteq> Some (100 * real (currentChunkIndex (fst (timerTick twoParagraphChunks 1000 freshReader)))
                / real (totalReadableChunks twoParagraphChunks))"
  by (simp add: timerTick_def Let_def twoParagraphChunks_length twoParagraphChunks_readable
      freshReader_def)

end
